theory Spec2Isabelle
  imports Complex_Main "HOL-Library.Sublist"
begin

section \<open>Python numbers\<close>

text \<open>
  Python floats are IEEE-754 binary64 values. A finite double is a rational number, and
  every arithmetic operation returns the exact result rounded to the nearest double, ties
  to even. \<open>fl\<close> is that rounding, for the normal range (the exponent is not bounded: the
  sizes and colour channels of this program stay far from overflow and from subnormals).
\<close>

fun bitlength :: "nat \<Rightarrow> nat" where
  "bitlength n = (if n = 0 then 0 else Suc (bitlength (n div 2)))"

declare bitlength.simps [simp del]

definition pow2 :: "int \<Rightarrow> rat" where
  "pow2 k = (if 0 \<le> k then 2 ^ nat k else 1 / 2 ^ nat (- k))"

text \<open>\<open>ilog2 q\<close> is the binary exponent of a positive \<open>q\<close>: \<open>2 ^ e \<le> q < 2 ^ (e + 1)\<close>.\<close>

definition ilog2 :: "rat \<Rightarrow> int" where
  "ilog2 q = (if 1 \<le> q then int (bitlength (nat \<lfloor>q\<rfloor>)) - 1
              else (let k = int (bitlength (nat \<lfloor>1 / q\<rfloor>)) - 1
                    in if q * pow2 k = 1 then - k else - k - 1))"

definition fl :: "rat \<Rightarrow> rat" where
  "fl q = (if q = 0 then 0 else
     (let u = pow2 (ilog2 \<bar>q\<bar> - 52);
          t = \<bar>q\<bar> / u;
          m = \<lfloor>t\<rfloor>;
          r = t - of_int m;
          m' = (if r < 1 / 2 then m else if 1 / 2 < r then m + 1
                else if even m then m else m + 1)
      in sgn q * of_int m' * u))"

definition float_of_int :: "int \<Rightarrow> rat" where
  "float_of_int n = fl (of_int n)"

definition fadd :: "rat \<Rightarrow> rat \<Rightarrow> rat" where
  "fadd a b = fl (a + b)"

definition fsub :: "rat \<Rightarrow> rat \<Rightarrow> rat" where
  "fsub a b = fl (a - b)"

definition fmul :: "rat \<Rightarrow> rat \<Rightarrow> rat" where
  "fmul a b = fl (a * b)"

text \<open>\<open>y / size\<close> on two Python ints: the correctly rounded quotient.\<close>

definition int_truediv :: "int \<Rightarrow> int \<Rightarrow> rat" where
  "int_truediv a b = fl (of_int a / of_int b)"

text \<open>\<open>int(x)\<close> on a float truncates towards zero.\<close>

definition int_of_float :: "rat \<Rightarrow> int" where
  "int_of_float x = (if 0 \<le> x then \<lfloor>x\<rfloor> else \<lceil>x\<rceil>)"

text \<open>\<open>int(size * c)\<close> for an int \<open>size\<close> and a float literal \<open>c\<close>.\<close>

definition int_scaled :: "int \<Rightarrow> rat \<Rightarrow> int" where
  "int_scaled n c = int_of_float (fmul (float_of_int n) (fl c))"

text \<open>The entries of the size table are ints or floats.\<close>

datatype pynum = PyInt int | PyFloat rat

fun num_mul_int :: "pynum \<Rightarrow> int \<Rightarrow> pynum" where
  "num_mul_int (PyInt a) s = PyInt (a * s)"
| "num_mul_int (PyFloat a) s = PyFloat (fmul a (float_of_int s))"

fun num_int :: "pynum \<Rightarrow> int" where
  "num_int (PyInt a) = a"
| "num_int (PyFloat a) = int_of_float a"

fun num_eq_int :: "pynum \<Rightarrow> int \<Rightarrow> bool" where
  "num_eq_int (PyInt a) k = (a = k)"
| "num_eq_int (PyFloat a) k = (a = of_int k)"

fun num_val :: "pynum \<Rightarrow> rat" where
  "num_val (PyInt a) = of_int a"
| "num_val (PyFloat a) = a"

section \<open>Strings\<close>

fun digits :: "nat \<Rightarrow> string" where
  "digits n = (if n < 10 then [char_of (48 + n)]
               else digits (n div 10) @ [char_of (48 + n mod 10)])"

declare digits.simps [simp del]

text \<open>The decimal text of an int, as an f-string prints it.\<close>

definition str_int :: "int \<Rightarrow> string" where
  "str_int i = (if i < 0 then CHR ''-'' # digits (nat (- i)) else digits (nat i))"

text \<open>\<open>sub in s\<close> on Python strings.\<close>

fun str_contains :: "string \<Rightarrow> string \<Rightarrow> bool" where
  "str_contains sub [] = (sub = [])"
| "str_contains sub (c # cs) = (prefix sub (c # cs) \<or> str_contains sub cs)"

section \<open>Images\<close>

datatype error = ValueError string | KeyError string

definition ebind :: "error + 'a \<Rightarrow> ('a \<Rightarrow> error + 'b) \<Rightarrow> error + 'b" where
  "ebind m f = (case m of Inl e \<Rightarrow> Inl e | Inr x \<Rightarrow> f x)"

text \<open>A colour is a 3- or 4-tuple of channels.\<close>

datatype colour = RGB int int int | RGBA int int int int

fun chan0 :: "colour \<Rightarrow> int" where
  "chan0 (RGB r g b) = r"
| "chan0 (RGBA r g b a) = r"

fun chan1 :: "colour \<Rightarrow> int" where
  "chan1 (RGB r g b) = g"
| "chan1 (RGBA r g b a) = g"

fun chan2 :: "colour \<Rightarrow> int" where
  "chan2 (RGB r g b) = b"
| "chan2 (RGBA r g b a) = b"

type_synonym pixel = "int \<times> int \<times> int \<times> int"

text \<open>A fill colour as the drawing context stores it: a 3-tuple is opaque.\<close>

fun ink :: "colour \<Rightarrow> pixel" where
  "ink (RGB r g b) = (r, g, b, 255)"
| "ink (RGBA r g b a) = (r, g, b, a)"

definition alpha :: "pixel \<Rightarrow> int" where
  "alpha p = snd (snd (snd p))"

text \<open>
  An image has its dimensions and its pixels; \<open>'p\<close> is \<open>pixel\<close> for mode RGBA and
  \<open>int\<close> for the single-channel mode L.
\<close>

record 'p image =
  width :: int
  height :: int
  pix :: "int \<Rightarrow> int \<Rightarrow> 'p"

definition inside :: "'p image \<Rightarrow> int \<Rightarrow> int \<Rightarrow> bool" where
  "inside img x y = (0 \<le> x \<and> x < width img \<and> 0 \<le> y \<and> y < height img)"

text \<open>\<open>Image.new(mode, (w, h), fill)\<close>: the allocation refuses a negative dimension.\<close>

definition Image_new :: "int \<Rightarrow> int \<Rightarrow> 'p \<Rightarrow> error + 'p image" where
  "Image_new w h fill =
     (if w < 0 \<or> h < 0 then Inl (ValueError ''Width and height must be >= 0'')
      else Inr \<lparr>width = w, height = h, pix = (\<lambda>x y. fill)\<rparr>)"

text \<open>
  \<open>draw.line([(x0, y), (x1, y)], fill)\<close> for a horizontal segment of the default width:
  the pixels of row \<open>y\<close> from \<open>x0\<close> to \<open>x1\<close>, both ends included, clipped to the image.
\<close>

definition draw_line :: "'p image \<Rightarrow> int \<Rightarrow> int \<Rightarrow> int \<Rightarrow> 'p \<Rightarrow> 'p image" where
  "draw_line img x0 x1 y fill =
     img\<lparr>pix := (\<lambda>x y'. if y' = y \<and> x0 \<le> x \<and> x \<le> x1 \<and> inside img x y'
                        then fill else pix img x y')\<rparr>"

text \<open>
  The shapes, the blur and the two blending formulas belong to the imaging library, not
  to this program: they are parameters. A shape is the set of pixels it covers; drawing
  overwrites the covered pixels of the canvas with the fill, and never resizes it.
\<close>

record rasterizer =
  ellipse_covers :: "int \<times> int \<times> int \<times> int \<Rightarrow> int \<Rightarrow> int \<Rightarrow> bool"
  rounded_rectangle_covers :: "int \<times> int \<times> int \<times> int \<Rightarrow> int \<Rightarrow> int \<Rightarrow> int \<Rightarrow> bool"
  polygon_covers :: "(rat \<times> rat) list \<Rightarrow> int \<Rightarrow> int \<Rightarrow> bool"
  gaussian_blur :: "int \<Rightarrow> pixel image \<Rightarrow> int \<Rightarrow> int \<Rightarrow> pixel"
  paste_blend :: "int \<Rightarrow> pixel \<Rightarrow> pixel \<Rightarrow> pixel"
  composite_over :: "pixel \<Rightarrow> pixel \<Rightarrow> pixel"

definition draw_shape :: "'p image \<Rightarrow> (int \<Rightarrow> int \<Rightarrow> bool) \<Rightarrow> 'p \<Rightarrow> 'p image" where
  "draw_shape img covers fill =
     img\<lparr>pix := (\<lambda>x y. if covers x y \<and> inside img x y then fill else pix img x y)\<rparr>"

definition draw_ellipse ::
  "rasterizer \<Rightarrow> 'p image \<Rightarrow> int \<times> int \<times> int \<times> int \<Rightarrow> 'p \<Rightarrow> 'p image" where
  "draw_ellipse R img box fill = draw_shape img (ellipse_covers R box) fill"

definition draw_rounded_rectangle ::
  "rasterizer \<Rightarrow> 'p image \<Rightarrow> int \<times> int \<times> int \<times> int \<Rightarrow> int \<Rightarrow> 'p \<Rightarrow> 'p image" where
  "draw_rounded_rectangle R img box radius fill =
     draw_shape img (rounded_rectangle_covers R box radius) fill"

definition draw_polygon ::
  "rasterizer \<Rightarrow> 'p image \<Rightarrow> (rat \<times> rat) list \<Rightarrow> 'p \<Rightarrow> 'p image" where
  "draw_polygon R img pts fill = draw_shape img (polygon_covers R pts) fill"

definition alpha_band :: "pixel image \<Rightarrow> int image" where
  "alpha_band img = \<lparr>width = width img, height = height img,
                     pix = (\<lambda>x y. alpha (pix img x y))\<rparr>"

text \<open>
  \<open>dest.paste(im, (ox, oy), mask)\<close>: the mask must have the size of \<open>im\<close>; the region
  is clipped to \<open>dest\<close>, whose size never changes; each pixel of the region is the blend
  of the old pixel and the pasted one, weighted by the mask.
\<close>

definition paste_pixels ::
  "rasterizer \<Rightarrow> pixel image \<Rightarrow> pixel image \<Rightarrow> int \<times> int \<Rightarrow> int image \<Rightarrow> pixel image" where
  "paste_pixels R dest im origin msk =
     dest\<lparr>pix := (\<lambda>x y.
        if inside dest x y \<and> inside im (x - fst origin) (y - snd origin)
        then paste_blend R (pix msk (x - fst origin) (y - snd origin))
               (pix dest x y) (pix im (x - fst origin) (y - snd origin))
        else pix dest x y)\<rparr>"

definition paste ::
  "rasterizer \<Rightarrow> pixel image \<Rightarrow> pixel image \<Rightarrow> int \<times> int \<Rightarrow> int image
     \<Rightarrow> error + pixel image" where
  "paste R dest im origin msk =
     (if width msk \<noteq> width im \<or> height msk \<noteq> height im
      then Inl (ValueError ''images do not match'')
      else Inr (paste_pixels R dest im origin msk))"

text \<open>\<open>Image.alpha_composite(im1, im2)\<close>: a new image of the size of both.\<close>

definition composite_pixels :: "rasterizer \<Rightarrow> pixel image \<Rightarrow> pixel image \<Rightarrow> pixel image" where
  "composite_pixels R im1 im2 =
     \<lparr>width = width im1, height = height im1,
      pix = (\<lambda>x y. composite_over R (pix im1 x y) (pix im2 x y))\<rparr>"

definition alpha_composite ::
  "rasterizer \<Rightarrow> pixel image \<Rightarrow> pixel image \<Rightarrow> error + pixel image" where
  "alpha_composite R im1 im2 =
     (if width im1 \<noteq> width im2 \<or> height im1 \<noteq> height im2
      then Inl (ValueError ''images do not match'')
      else Inr (composite_pixels R im1 im2))"

text \<open>\<open>image.filter(ImageFilter.GaussianBlur(radius))\<close>: a new image of the same size.\<close>

definition filter_blur :: "rasterizer \<Rightarrow> int \<Rightarrow> pixel image \<Rightarrow> pixel image" where
  "filter_blur R radius img =
     \<lparr>width = width img, height = height img, pix = gaussian_blur R radius img\<rparr>"

section \<open>The generator\<close>

record generator =
  colors :: "string \<rightharpoonup> colour"
  icon_sizes :: "(pynum \<times> pynum \<times> int) list"

definition init :: generator where
  "init = \<lparr>colors = map_of
       [(''primary_blue'', RGB 0 122 255),
        (''secondary_blue'', RGB 0 89 204),
        (''accent_purple'', RGB 128 0 255),
        (''background_white'', RGB 255 255 255),
        (''shadow_gray'', RGBA 0 0 0 25),
        (''highlight_white'', RGBA 255 255 255 77)],
     icon_sizes =
       [(PyInt 20, PyInt 20, 1), (PyInt 20, PyInt 20, 2), (PyInt 20, PyInt 20, 3),
        (PyInt 29, PyInt 29, 1), (PyInt 29, PyInt 29, 2), (PyInt 29, PyInt 29, 3),
        (PyInt 40, PyInt 40, 1), (PyInt 40, PyInt 40, 2), (PyInt 40, PyInt 40, 3),
        (PyInt 60, PyInt 60, 1), (PyInt 60, PyInt 60, 2), (PyInt 60, PyInt 60, 3),
        (PyInt 76, PyInt 76, 1), (PyInt 76, PyInt 76, 2),
        (PyFloat (167 / 2), PyFloat (167 / 2), 2),
        (PyInt 1024, PyInt 1024, 1)]\<rparr>"

definition color :: "generator \<Rightarrow> string \<Rightarrow> error + colour" where
  "color g k = (case colors g k of None \<Rightarrow> Inl (KeyError k) | Some c \<Rightarrow> Inr c)"

subsection \<open>create_gradient_background\<close>

text \<open>One channel of a row: \<open>int(a * (1 - ratio) + b * ratio)\<close>.\<close>

definition interp :: "int \<Rightarrow> int \<Rightarrow> rat \<Rightarrow> int" where
  "interp a b ratio =
     int_of_float (fadd (fmul (float_of_int a) (fsub (float_of_int 1) ratio))
                        (fmul (float_of_int b) ratio))"

definition row_fill :: "int \<Rightarrow> colour \<Rightarrow> colour \<Rightarrow> int \<Rightarrow> pixel" where
  "row_fill sz start_color end_color y =
     (let ratio = int_truediv y sz;
          r = interp (chan0 start_color) (chan0 end_color) ratio;
          g = interp (chan1 start_color) (chan1 end_color) ratio;
          b = interp (chan2 start_color) (chan2 end_color) ratio
      in (r, g, b, 255))"

text \<open>The loop \<open>for y in range(size)\<close>, over the rows still to draw.\<close>

fun gradient_rows ::
  "int \<Rightarrow> colour \<Rightarrow> colour \<Rightarrow> int list \<Rightarrow> pixel image \<Rightarrow> pixel image" where
  "gradient_rows sz start_color end_color [] img = img"
| "gradient_rows sz start_color end_color (y # ys) img =
     gradient_rows sz start_color end_color ys
       (draw_line img 0 sz y (row_fill sz start_color end_color y))"

definition create_gradient_background ::
  "int \<Rightarrow> colour \<Rightarrow> colour \<Rightarrow> error + pixel image" where
  "create_gradient_background sz start_color end_color =
     ebind (Image_new sz sz (0, 0, 0, 0))
       (\<lambda>image. Inr (gradient_rows sz start_color end_color [0..sz - 1] image))"

subsection \<open>create_checkmark_path, create_highlight_overlay, create_shadow\<close>

definition create_checkmark_path :: "int \<Rightarrow> int \<Rightarrow> int \<Rightarrow> (rat \<times> rat) list" where
  "create_checkmark_path x y sz =
     (let w = sz; h = sz
      in [(fadd (float_of_int x) (fmul (float_of_int w) (fl (2 / 10))),
           fadd (float_of_int y) (fmul (float_of_int h) (fl (5 / 10)))),
          (fadd (float_of_int x) (fmul (float_of_int w) (fl (4 / 10))),
           fadd (float_of_int y) (fmul (float_of_int h) (fl (7 / 10)))),
          (fadd (float_of_int x) (fmul (float_of_int w) (fl (8 / 10))),
           fadd (float_of_int y) (fmul (float_of_int h) (fl (3 / 10))))])"

definition create_highlight_overlay ::
  "rasterizer \<Rightarrow> generator \<Rightarrow> int \<Rightarrow> error + pixel image" where
  "create_highlight_overlay R g sz =
     ebind (Image_new sz sz (0, 0, 0, 0)) (\<lambda>image.
     let highlight_size = int_scaled sz (8 / 10);
         highlight_x = int_scaled sz (1 / 10);
         highlight_y = int_scaled sz (1 / 10)
     in ebind (color g ''highlight_white'') (\<lambda>c.
        Inr (draw_ellipse R image
               (highlight_x, highlight_y,
                highlight_x + highlight_size, highlight_y + highlight_size) (ink c))))"

definition create_shadow :: "rasterizer \<Rightarrow> generator \<Rightarrow> int \<Rightarrow> error + pixel image" where
  "create_shadow R g sz =
     (let shadow_size = int_scaled sz (11 / 10);
          shadow_offset = int_scaled sz (2 / 100)
      in ebind (Image_new shadow_size shadow_size (0, 0, 0, 0)) (\<lambda>image.
         ebind (color g ''shadow_gray'') (\<lambda>c.
         Inr (filter_blur R 2
                (draw_ellipse R image (0, 0, shadow_size, shadow_size) (ink c))))))"

subsection \<open>create_circle_with_checkmark\<close>

text \<open>
  The layers of the icon before the shadow step: the value of the variable \<open>image\<close>
  after \<open>Image.alpha_composite(image, highlight)\<close>.
\<close>

definition icon_layers :: "rasterizer \<Rightarrow> generator \<Rightarrow> int \<Rightarrow> error + pixel image" where
  "icon_layers R g sz =
     (let corner_radius = int_scaled sz (22 / 100);
          main_circle_size = int_scaled sz (6 / 10);
          inner_circle_size = int_scaled sz (4 / 10);
          checkmark_size = int_scaled sz (25 / 100)
      in ebind (Image_new sz sz (0, 0, 0, 0)) (\<lambda>image.
         ebind (color g ''primary_blue'') (\<lambda>primary_blue.
         ebind (color g ''secondary_blue'') (\<lambda>secondary_blue.
         ebind (create_gradient_background sz primary_blue secondary_blue) (\<lambda>bg_image.
         ebind (Image_new sz sz (0::int)) (\<lambda>msk.
         let msk = draw_rounded_rectangle R msk (0, 0, sz, sz) corner_radius 255
         in ebind (paste R image bg_image (0, 0) msk) (\<lambda>image.
         let circle_x = (sz - main_circle_size) div 2;
             circle_y = (sz - main_circle_size) div 2
         in ebind (color g ''background_white'') (\<lambda>white.
         let image = draw_ellipse R image
                       (circle_x, circle_y,
                        circle_x + main_circle_size, circle_y + main_circle_size) (ink white);
             inner_x = (sz - inner_circle_size) div 2;
             inner_y = (sz - inner_circle_size) div 2
         in ebind (create_gradient_background inner_circle_size
                     (RGBA 0 122 255 25) (RGBA 128 0 255 25)) (\<lambda>inner_gradient.
         ebind (paste R image inner_gradient (inner_x, inner_y) (alpha_band inner_gradient))
           (\<lambda>image.
         let checkmark_x = (sz - checkmark_size) div 2;
             checkmark_y = (sz - checkmark_size) div 2;
             checkmark_bg_size = int_scaled sz (3 / 10);
             checkmark_bg_x = (sz - checkmark_bg_size) div 2;
             checkmark_bg_y = (sz - checkmark_bg_size) div 2
         in ebind (color g ''background_white'') (\<lambda>white.
         let image = draw_ellipse R image
                       (checkmark_bg_x, checkmark_bg_y,
                        checkmark_bg_x + checkmark_bg_size, checkmark_bg_y + checkmark_bg_size)
                       (ink white);
             checkmark_path = create_checkmark_path checkmark_x checkmark_y checkmark_size
         in ebind (color g ''primary_blue'') (\<lambda>blue.
         let image = draw_polygon R image checkmark_path (ink blue)
         in ebind (create_highlight_overlay R g sz) (\<lambda>highlight.
            alpha_composite R image highlight)))))))))))))"

definition create_circle_with_checkmark ::
  "rasterizer \<Rightarrow> generator \<Rightarrow> int \<Rightarrow> error + pixel image" where
  "create_circle_with_checkmark R g sz =
     ebind (icon_layers R g sz) (\<lambda>image.
     ebind (create_shadow R g sz) (\<lambda>shadow.
     ebind (Image_new sz sz (0, 0, 0, 0)) (\<lambda>final_image.
     ebind (paste R final_image shadow (0, 0) (alpha_band shadow)) (\<lambda>final_image.
     paste R final_image image (0, 0) (alpha_band image)))))"

subsection \<open>generate_all_icons\<close>

definition actual_size :: "pynum \<times> pynum \<times> int \<Rightarrow> int" where
  "actual_size e = (case e of (w, h, scale) \<Rightarrow> num_int (num_mul_int w scale))"

definition filename :: "pynum \<times> pynum \<times> int \<Rightarrow> string" where
  "filename e = (case e of (w, h, scale) \<Rightarrow>
     (let name = (if scale > 1
                  then ''AppIcon-'' @ str_int (num_int w) @ ''@'' @ str_int scale @ ''x.png''
                  else ''AppIcon-'' @ str_int (num_int w) @ ''.png'')
      in if num_eq_int w 1024 then ''AppIcon-1024.png'' else name))"

text \<open>
  \<open>icon.save(filepath, 'PNG')\<close>: the encoder refuses an image without pixels; the file
  system is taken to accept every write.
\<close>

definition save_png :: "pixel image \<Rightarrow> error + unit" where
  "save_png icon =
     (if width icon = 0 \<or> height icon = 0
      then Inl (ValueError ''tile cannot extend outside image'')
      else Inr ())"

text \<open>
  The loop over the size table: each entry is composed, then saved, before the next one.
  The result is the list of the files written so far, as (file name, image) pairs in
  the order of writing, and the exception that ended the loop, if any.
\<close>

fun generate_entries ::
  "rasterizer \<Rightarrow> generator \<Rightarrow> (pynum \<times> pynum \<times> int) list \<Rightarrow> (string \<times> pixel image) list
     \<Rightarrow> (string \<times> pixel image) list \<times> error option" where
  "generate_entries R g [] written = (written, None)"
| "generate_entries R g (e # es) written =
     (case create_circle_with_checkmark R g (actual_size e) of
        Inl err \<Rightarrow> (written, Some err)
      | Inr icon \<Rightarrow>
          (case save_png icon of
             Inl err \<Rightarrow> (written, Some err)
           | Inr u \<Rightarrow> generate_entries R g es (written @ [(filename e, icon)])))"

definition generate_all_icons ::
  "rasterizer \<Rightarrow> generator \<Rightarrow> (string \<times> pixel image) list \<times> error option" where
  "generate_all_icons R g = generate_entries R g (icon_sizes g) []"

subsection \<open>validate_icon\<close>

text \<open>
  What \<open>Image.open\<close> finds at a path: an exception with its message, or the header of
  the decoded file.
\<close>

record image_file =
  file_width :: int
  file_height :: int
  file_format :: string

type_synonym filesystem = "string \<Rightarrow> string + image_file"

definition validate_icon :: "filesystem \<Rightarrow> string \<Rightarrow> bool \<times> string" where
  "validate_icon fs image_path =
     (case fs image_path of
        Inl e \<Rightarrow> (False, ''Error validating icon: '' @ e)
      | Inr img \<Rightarrow>
          if file_width img \<noteq> file_height img then (False, ''Icon must be square'')
          else if file_width img < 1024 \<and> str_contains ''1024'' image_path
          then (False, ''App Store icon must be at least 1024x1024'')
          else if file_format img \<noteq> ''PNG'' then (False, ''Icon must be PNG format'')
          else (True, ''Icon is valid''))"

section \<open>Observing results\<close>

text \<open>The size of a returned image and one of its pixels, as \<open>img.size\<close> and \<open>getpixel\<close>.\<close>

definition dims :: "error + 'p image \<Rightarrow> (int \<times> int) option" where
  "dims r = (case r of Inl e \<Rightarrow> None | Inr img \<Rightarrow> Some (width img, height img))"

definition pixel_at :: "error + 'p image \<Rightarrow> int \<Rightarrow> int \<Rightarrow> 'p option" where
  "pixel_at r x y =
     (case r of Inl e \<Rightarrow> None
      | Inr img \<Rightarrow> if inside img x y then Some (pix img x y) else None)"

text \<open>
  A simple rasterizer, to run the program on concrete inputs: the ellipse inscribed in
  its box, a rounded rectangle without its rounding, an empty polygon, no blur, and
  blending by threshold.
\<close>

definition example_rasterizer :: rasterizer where
  "example_rasterizer =
     \<lparr>ellipse_covers = (\<lambda>box x y. case box of (x0, y0, x1, y1) \<Rightarrow>
          (2 * x - x0 - x1)\<^sup>2 * (y1 - y0)\<^sup>2 + (2 * y - y0 - y1)\<^sup>2 * (x1 - x0)\<^sup>2
            \<le> (x1 - x0)\<^sup>2 * (y1 - y0)\<^sup>2),
      rounded_rectangle_covers = (\<lambda>box radius x y. case box of (x0, y0, x1, y1) \<Rightarrow>
          x0 \<le> x \<and> x \<le> x1 \<and> y0 \<le> y \<and> y \<le> y1),
      polygon_covers = (\<lambda>pts x y. False),
      gaussian_blur = (\<lambda>radius img. pix img),
      paste_blend = (\<lambda>m dst src. if m = 0 then dst else src),
      composite_over = (\<lambda>dst src. if alpha src = 0 then dst else src)\<rparr>"

text \<open>Files used as concrete inputs below.\<close>

definition fs_example :: filesystem where
  "fs_example p =
     (if p = ''out/AppIcon-1024.png''
      then Inr \<lparr>file_width = 512, file_height = 512, file_format = ''PNG''\<rparr>
      else if p = ''builds/1024/AppIcon-20.png''
      then Inr \<lparr>file_width = 20, file_height = 20, file_format = ''PNG''\<rparr>
      else if p = ''out/1024-wide.png''
      then Inr \<lparr>file_width = 20, file_height = 30, file_format = ''PNG''\<rparr>
      else Inl ''cannot identify image file'')"

section \<open>The specification's wording\<close>

text \<open>
  The file name of a size entry as the specification words it: \<open>AppIcon-1024.png\<close> for
  the 1024 entry whatever its scale, the name without a suffix at scale 1, the name with
  the scale suffix (as in \<open>AppIcon-20@2x.png\<close>) at a scale above 1. The wording names no other scale.
\<close>

definition spec_filename :: "pynum \<times> pynum \<times> int \<Rightarrow> string option" where
  "spec_filename e = (case e of (w, h, scale) \<Rightarrow>
     if num_val w = 1024 then Some ''AppIcon-1024.png''
     else if scale = 1 then Some (''AppIcon-'' @ str_int (num_int w) @ ''.png'')
     else if scale > 1
     then Some (''AppIcon-'' @ str_int (num_int w) @ ''@'' @ str_int scale @ ''x.png'')
     else None)"


text \<open>
  One channel of a gradient row as the specification words it, in exact arithmetic: the
  integer part of \<open>a * (1 - y / size) + b * (y / size)\<close>.
\<close>

definition spec_channel :: "int \<Rightarrow> int \<Rightarrow> int \<Rightarrow> int \<Rightarrow> int" where
  "spec_channel a b y sz =
     (let ratio = (of_int y :: rat) / of_int sz
      in \<lfloor>of_int a * (1 - ratio) + of_int b * ratio\<rfloor>)"



section \<open>Properties of validate_icon\<close>




text \<open>
  Claim C10, as stated, fails: the path \<open>out/1024-wide.png\<close> contains 1024 and its image
  is 20 pixels wide, but the image is not square, and the square rule, which comes
  first, gives the reason.
\<close>

theorem store_rule_counterexample:
  "str_contains ''1024'' ''out/1024-wide.png'' \<and>
   fs_example ''out/1024-wide.png'' =
     Inr \<lparr>file_width = 20, file_height = 30, file_format = ''PNG''\<rparr> \<and>
   (20::int) < 1024 \<and>
   validate_icon fs_example ''out/1024-wide.png'' \<noteq>
     (False, ''App Store icon must be at least 1024x1024'')"
  by (simp add: fs_example_def validate_icon_def)

text \<open>
  Claim C10, amended. The store-icon rule is triggered by the substring 1024 anywhere in
  the whole path string, a directory component included: for every such path whose
  image decodes as a square of width below 1024, the result is invalid with the
  store-icon reason.
\<close>

theorem store_rule_any_path:
  "str_contains ''1024'' p \<Longrightarrow> fs p = Inr img \<Longrightarrow> file_width img = file_height img \<Longrightarrow>
   file_width img < 1024 \<Longrightarrow>
   validate_icon fs p = (False, ''App Store icon must be at least 1024x1024'')"
  by (simp add: validate_icon_def)

theorem store_rule_any_path_witness:
  "str_contains ''1024'' ''builds/1024/AppIcon-20.png'' \<and>
   validate_icon fs_example ''builds/1024/AppIcon-20.png'' =
     (False, ''App Store icon must be at least 1024x1024'')"
  using store_rule_any_path [of "''builds/1024/AppIcon-20.png''" fs_example
      "\<lparr>file_width = 20, file_height = 20, file_format = ''PNG''\<rparr>"]
  by (simp add: fs_example_def)

section \<open>Properties of the size table\<close>

lemma filename_table:
  "map filename (icon_sizes init) =
     [''AppIcon-20.png'', ''AppIcon-20@2x.png'', ''AppIcon-20@3x.png'',
      ''AppIcon-29.png'', ''AppIcon-29@2x.png'', ''AppIcon-29@3x.png'',
      ''AppIcon-40.png'', ''AppIcon-40@2x.png'', ''AppIcon-40@3x.png'',
      ''AppIcon-60.png'', ''AppIcon-60@2x.png'', ''AppIcon-60@3x.png'',
      ''AppIcon-76.png'', ''AppIcon-76@2x.png'', ''AppIcon-83@2x.png'',
      ''AppIcon-1024.png'']"
  by code_simp

lemma spec_filename_table:
  "map spec_filename (icon_sizes init) = map (\<lambda>e. Some (filename e)) (icon_sizes init)"
  by code_simp

lemma filename_distinct:
  "distinct (map filename (filter (\<lambda>e. num_val (fst e) \<noteq> 1024) (icon_sizes init)))"
  by code_simp

lemma actual_size_table:
  "map actual_size (icon_sizes init) =
     [20, 40, 60, 29, 58, 87, 40, 80, 120, 60, 120, 180, 76, 152, 167, 1024]"
  by code_simp


text \<open>
  Claim C6. For every entry of the size table the file name that \<open>generate_all_icons\<close>
  derives is the one the specification words (the integer part of the logical size,
  the scale suffix above scale 1, \<open>AppIcon-1024.png\<close> for the 1024 entry), and on the
  entries other than the 1024 one the names are pairwise different.
\<close>

theorem filename_catalog:
  "(\<forall>e \<in> set (icon_sizes init). spec_filename e = Some (filename e)) \<and>
   inj_on filename {e \<in> set (icon_sizes init). num_val (fst e) \<noteq> 1024}"
proof
  show "\<forall>e \<in> set (icon_sizes init). spec_filename e = Some (filename e)"
    using spec_filename_table by (simp only: map_eq_conv)
next
  have "inj_on filename (set (filter (\<lambda>e. num_val (fst e) \<noteq> 1024) (icon_sizes init)))"
    using filename_distinct by (simp only: distinct_map)
  then show "inj_on filename {e \<in> set (icon_sizes init). num_val (fst e) \<noteq> 1024}"
    by (simp only: set_filter)
qed

theorem filename_catalog_witness:
  "(PyFloat (167 / 2), PyFloat (167 / 2), 2) \<in> set (icon_sizes init) \<and>
   spec_filename (PyFloat (167 / 2), PyFloat (167 / 2), 2) = Some ''AppIcon-83@2x.png'' \<and>
   filename (PyFloat (167 / 2), PyFloat (167 / 2), 2) = ''AppIcon-83@2x.png''"
proof -
  have m: "(PyFloat (167 / 2), PyFloat (167 / 2), 2) \<in> set (icon_sizes init)"
    by (simp add: init_def)
  have f: "filename (PyFloat (167 / 2), PyFloat (167 / 2), 2) = ''AppIcon-83@2x.png''"
    by code_simp
  from filename_catalog m
  have "spec_filename (PyFloat (167 / 2), PyFloat (167 / 2), 2) =
          Some (filename (PyFloat (167 / 2), PyFloat (167 / 2), 2))"
    by blast
  with m f show ?thesis by simp
qed



section \<open>Properties of the float model\<close>

lemma bitlength_le: "n < 2 ^ k \<Longrightarrow> bitlength n \<le> k"
proof (induction k arbitrary: n)
  case 0
  then show ?case by (simp add: bitlength.simps)
next
  case (Suc k)
  show ?case
  proof (cases "n = 0")
    case True
    then show ?thesis by (simp add: bitlength.simps)
  next
    case False
    from Suc.prems have "n div 2 < 2 ^ k" by simp
    then have "bitlength (n div 2) \<le> k" by (rule Suc.IH)
    with False show ?thesis by (subst bitlength.simps) simp
  qed
qed

lemma pow2_nonpos: "k \<le> 0 \<Longrightarrow> pow2 k = 1 / 2 ^ nat (- k)"
  by (cases "k = 0") (simp_all add: pow2_def)

lemma fl_of_int:
  assumes "0 \<le> n" and "n < 2 ^ 53"
  shows "fl (of_int n) = of_int n"
proof (cases "n = 0")
  case True
  then show ?thesis by (simp add: fl_def)
next
  case False
  with assms have n1: "1 \<le> n" by simp
  define k where "k = int (bitlength (nat n)) - 1 - 52"
  from assms have "nat n < 2 ^ 53"
    by (simp add: nat_less_iff)
  then have "bitlength (nat n) \<le> 53" by (rule bitlength_le)
  then have k0: "k \<le> 0" by (simp add: k_def)
  have e: "ilog2 \<bar>of_int n\<bar> - 52 = k"
    using n1 by (simp add: ilog2_def k_def)
  have u: "pow2 k = 1 / 2 ^ nat (- k)" using k0 by (rule pow2_nonpos)
  have t: "\<bar>(of_int n :: rat)\<bar> / pow2 k = of_int (n * 2 ^ nat (- k))"
    using n1 by (simp add: u)
  have nz: "(of_int n :: rat) \<noteq> 0" using False by simp
  have sg: "sgn (of_int n :: rat) = 1" using n1 by simp
  show ?thesis
    unfolding fl_def Let_def e t using nz
    by (simp add: sg u)
qed

section \<open>Properties of create_gradient_background\<close>

lemma ebind_Inr [simp]: "ebind (Inr x) f = f x"
  by (simp add: ebind_def)

lemma ebind_Inl [simp]: "ebind (Inl e) f = Inl e"
  by (simp add: ebind_def)

lemma inside_draw_line [simp]: "inside (draw_line img x0 x1 y c) = inside img"
  by (simp add: draw_line_def inside_def fun_eq_iff)

lemma pix_draw_line:
  "pix (draw_line img x0 x1 y c) x y' =
     (if y' = y \<and> x0 \<le> x \<and> x \<le> x1 \<and> inside img x y' then c else pix img x y')"
  by (simp add: draw_line_def)

lemma gradient_rows_width [simp]: "width (gradient_rows sz a b ys img) = width img"
  by (induction ys arbitrary: img) (simp_all add: draw_line_def)

lemma gradient_rows_height [simp]: "height (gradient_rows sz a b ys img) = height img"
  by (induction ys arbitrary: img) (simp_all add: draw_line_def)

lemma gradient_rows_pix:
  "pix (gradient_rows sz a b ys img) x y =
     (if y \<in> set ys \<and> 0 \<le> x \<and> x \<le> sz \<and> inside img x y
      then row_fill sz a b y else pix img x y)"
proof (induction ys arbitrary: img)
  case Nil
  show ?case by simp
next
  case (Cons y' ys)
  show ?case
    by (auto simp: Cons.IH pix_draw_line)
qed

lemma create_gradient_background_Inr:
  "0 \<le> sz \<Longrightarrow> create_gradient_background sz a b =
     Inr (gradient_rows sz a b [0..sz - 1] \<lparr>width = sz, height = sz, pix = (\<lambda>x y. (0, 0, 0, 0))\<rparr>)"
  by (simp add: create_gradient_background_def Image_new_def)

lemma create_gradient_background_pixel:
  assumes "0 \<le> x" "x < sz" "0 \<le> y" "y < sz"
  shows "pixel_at (create_gradient_background sz a b) x y = Some (row_fill sz a b y)"
proof -
  from assms have "0 \<le> sz" by simp
  then show ?thesis
    using assms
    by (simp add: create_gradient_background_Inr pixel_at_def gradient_rows_pix inside_def)
qed

lemma create_gradient_background_dims:
  "0 \<le> sz \<Longrightarrow> dims (create_gradient_background sz a b) = Some (sz, sz)"
  by (simp add: create_gradient_background_Inr dims_def)

lemma interp_zero:
  assumes "0 \<le> a" "a \<le> 255"
  shows "interp a b 0 = a"
proof -
  from assms have a: "fl (of_int a) = of_int a" by (intro fl_of_int) simp_all
  have one: "fl 1 = 1" using fl_of_int [of 1] by simp
  have zero: "fl 0 = 0" by (simp add: fl_def)
  show ?thesis
    using assms by (simp add: interp_def float_of_int_def fadd_def fmul_def fsub_def a one zero
        int_of_float_def)
qed

lemma int_truediv_zero: "int_truediv 0 sz = 0"
  by (simp add: int_truediv_def fl_def)

lemma interp_7_3: "interp 255 255 (int_truediv 3 7) = 254"
  by code_simp

lemma interp_half:
  "interp 0 255 (int_truediv 1 2) = 127 \<and> interp 0 0 (int_truediv 1 2) = 0 \<and>
   interp 122 89 (int_truediv 1 2) = 105 \<and> interp 255 204 (int_truediv 1 2) = 229"
  by code_simp

text \<open>
  Claim C4, as stated, fails. In exact arithmetic a gradient between two equal colours
  is that colour on every row. The program computes in floating point: for size 7, both
  colours white, row 3 has the ratio 3 / 7, the two products add to 254.99999999999997
  and the truncation gives 254, while the stated formula gives 255.
\<close>

theorem gradient_exact_counterexample:
  "pixel_at (create_gradient_background 7 (RGB 255 255 255) (RGB 255 255 255)) 0 3 =
     Some (254, 254, 254, 255) \<and>
   spec_channel 255 255 3 7 = 255"
proof -
  have "(0::int) \<le> 0" "(0::int) < 7" "(0::int) \<le> 3" "(3::int) < 7" by simp_all
  then have "pixel_at (create_gradient_background 7 (RGB 255 255 255) (RGB 255 255 255)) 0 3 =
     Some (row_fill 7 (RGB 255 255 255) (RGB 255 255 255) 3)"
    by (rule create_gradient_background_pixel)
  moreover have "spec_channel 255 255 3 7 = 255"
    by (simp add: spec_channel_def)
  ultimately show ?thesis
    by (simp add: row_fill_def interp_7_3)
qed

text \<open>
  Claim C4, amended. For every size above 0 and every two colours the returned image is
  size by size, every pixel has alpha 255, and each pixel of row \<open>y\<close> has, in each of the
  three colour channels, the value of \<open>int(a * (1 - y / size) + b * (y / size))\<close> computed
  in floating point, each operation rounded; the column plays no part.
\<close>

theorem gradient_interpolates:
  "0 \<le> x \<and> x < sz \<and> 0 \<le> y \<and> y < sz \<longrightarrow>
     dims (create_gradient_background sz A B) = Some (sz, sz) \<and>
     pixel_at (create_gradient_background sz A B) x y =
       Some (interp (chan0 A) (chan0 B) (int_truediv y sz),
             interp (chan1 A) (chan1 B) (int_truediv y sz),
             interp (chan2 A) (chan2 B) (int_truediv y sz), 255)"
proof
  assume a: "0 \<le> x \<and> x < sz \<and> 0 \<le> y \<and> y < sz"
  then have "0 \<le> sz" by simp
  then have d: "dims (create_gradient_background sz A B) = Some (sz, sz)"
    by (rule create_gradient_background_dims)
  from a have "pixel_at (create_gradient_background sz A B) x y = Some (row_fill sz A B y)"
    by (intro create_gradient_background_pixel) simp_all
  with d show "dims (create_gradient_background sz A B) = Some (sz, sz) \<and>
     pixel_at (create_gradient_background sz A B) x y =
       Some (interp (chan0 A) (chan0 B) (int_truediv y sz),
             interp (chan1 A) (chan1 B) (int_truediv y sz),
             interp (chan2 A) (chan2 B) (int_truediv y sz), 255)"
    by (simp add: row_fill_def Let_def)
qed

theorem gradient_interpolates_witness:
  "(0::int) \<le> 1 \<and> (1::int) < 2 \<and>
   dims (create_gradient_background 2 (RGB 0 122 255) (RGB 0 89 204)) = Some (2, 2) \<and>
   pixel_at (create_gradient_background 2 (RGB 0 122 255) (RGB 0 89 204)) 1 1 =
     Some (0, 105, 229, 255)"
  using gradient_interpolates [of 1 2 1 "RGB 0 122 255" "RGB 0 89 204"]
  by (simp add: interp_half)

text \<open>
  Claim C3, as stated, fails on the last row. The ratio of row \<open>y\<close> is \<open>y / size\<close>, which
  never reaches 1: for size 2, from black to white, the last row has the ratio 1 / 2
  and the value 127 in each channel, far from 255.
\<close>

theorem gradient_last_row_counterexample:
  "pixel_at (create_gradient_background 2 (RGB 0 0 0) (RGB 255 255 255)) 0 1 =
     Some (127, 127, 127, 255) \<and>
   \<not> \<bar>(127::int) - 255\<bar> \<le> 1"
proof -
  have "(0::int) \<le> 0" "(0::int) < 2" "(0::int) \<le> 1" "(1::int) < 2" by simp_all
  then have "pixel_at (create_gradient_background 2 (RGB 0 0 0) (RGB 255 255 255)) 0 1 =
     Some (row_fill 2 (RGB 0 0 0) (RGB 255 255 255) 1)"
    by (rule create_gradient_background_pixel)
  then show ?thesis
    by (simp add: row_fill_def interp_half)
qed

text \<open>
  Claim C3, amended. For every size above 0 and colours whose channels are 8-bit values,
  the returned image is size by size, every pixel of row 0 is the start colour (with
  alpha 255), and every pixel of the last row is the interpolation at the ratio
  \<open>(size - 1) / size\<close>.
\<close>

theorem gradient_first_and_last_row:
  "0 \<le> x \<and> x < sz \<and> 0 \<le> chan0 A \<and> chan0 A \<le> 255 \<and> 0 \<le> chan1 A \<and> chan1 A \<le> 255 \<and>
   0 \<le> chan2 A \<and> chan2 A \<le> 255 \<longrightarrow>
     dims (create_gradient_background sz A B) = Some (sz, sz) \<and>
     pixel_at (create_gradient_background sz A B) x 0 =
       Some (chan0 A, chan1 A, chan2 A, 255) \<and>
     pixel_at (create_gradient_background sz A B) x (sz - 1) =
       Some (interp (chan0 A) (chan0 B) (int_truediv (sz - 1) sz),
             interp (chan1 A) (chan1 B) (int_truediv (sz - 1) sz),
             interp (chan2 A) (chan2 B) (int_truediv (sz - 1) sz), 255)"
proof
  assume a: "0 \<le> x \<and> x < sz \<and> 0 \<le> chan0 A \<and> chan0 A \<le> 255 \<and> 0 \<le> chan1 A \<and>
    chan1 A \<le> 255 \<and> 0 \<le> chan2 A \<and> chan2 A \<le> 255"
  then have "0 \<le> sz" by simp
  then have d: "dims (create_gradient_background sz A B) = Some (sz, sz)"
    by (rule create_gradient_background_dims)
  from a have "pixel_at (create_gradient_background sz A B) x 0 = Some (row_fill sz A B 0)"
    by (intro create_gradient_background_pixel) simp_all
  then have first: "pixel_at (create_gradient_background sz A B) x 0 =
      Some (chan0 A, chan1 A, chan2 A, 255)"
    using a by (simp add: row_fill_def int_truediv_zero interp_zero)
  from a have "pixel_at (create_gradient_background sz A B) x (sz - 1) =
      Some (row_fill sz A B (sz - 1))"
    by (intro create_gradient_background_pixel) simp_all
  then have last: "pixel_at (create_gradient_background sz A B) x (sz - 1) =
       Some (interp (chan0 A) (chan0 B) (int_truediv (sz - 1) sz),
             interp (chan1 A) (chan1 B) (int_truediv (sz - 1) sz),
             interp (chan2 A) (chan2 B) (int_truediv (sz - 1) sz), 255)"
    by (simp add: row_fill_def Let_def)
  from d first last show "dims (create_gradient_background sz A B) = Some (sz, sz) \<and>
     pixel_at (create_gradient_background sz A B) x 0 =
       Some (chan0 A, chan1 A, chan2 A, 255) \<and>
     pixel_at (create_gradient_background sz A B) x (sz - 1) =
       Some (interp (chan0 A) (chan0 B) (int_truediv (sz - 1) sz),
             interp (chan1 A) (chan1 B) (int_truediv (sz - 1) sz),
             interp (chan2 A) (chan2 B) (int_truediv (sz - 1) sz), 255)"
    by simp
qed

theorem gradient_first_and_last_row_witness:
  "(0::int) \<le> 1 \<and> (1::int) < 2 \<and>
   dims (create_gradient_background 2 (RGB 0 122 255) (RGB 0 89 204)) = Some (2, 2) \<and>
   pixel_at (create_gradient_background 2 (RGB 0 122 255) (RGB 0 89 204)) 1 0 =
     Some (0, 122, 255, 255) \<and>
   pixel_at (create_gradient_background 2 (RGB 0 122 255) (RGB 0 89 204)) 1 (2 - 1) =
     Some (0, 105, 229, 255)"
  using gradient_first_and_last_row [of 1 2 "RGB 0 122 255" "RGB 0 89 204"]
  by (simp add: interp_half)

text \<open>
  Claim C2 against the code. For size 10 the inner layer is
  \<open>create_gradient_background(4, (0, 122, 255, 25), (128, 0, 255, 25))\<close>. The function reads
  only the first three channels of its colours and draws every row with alpha 255 over
  the whole width: the layer is an opaque 4 by 4 square. Its pixel (0, 0), whose centre
  lies outside the disk of diameter 4, is opaque blue, and the layer is its own paste
  mask.
\<close>

theorem inner_gradient_opaque_square:
  "int_scaled 10 (4 / 10) = 4 \<and>
   dims (create_gradient_background 4 (RGBA 0 122 255 25) (RGBA 128 0 255 25)) = Some (4, 4) \<and>
   pixel_at (create_gradient_background 4 (RGBA 0 122 255 25) (RGBA 128 0 255 25)) 0 0 =
     Some (0, 122, 255, 255) \<and>
   \<not> (2 * 0 + 1 - 4)\<^sup>2 + (2 * 0 + 1 - 4)\<^sup>2 \<le> (4::int)\<^sup>2"
proof -
  have s: "int_scaled 10 (4 / 10) = 4" by code_simp
  have d: "dims (create_gradient_background 4 (RGBA 0 122 255 25) (RGBA 128 0 255 25)) =
      Some (4, 4)"
    by (rule create_gradient_background_dims) simp
  have "(0::int) \<le> 0" "(0::int) < 4" by simp_all
  then have "pixel_at (create_gradient_background 4 (RGBA 0 122 255 25) (RGBA 128 0 255 25)) 0 0 =
      Some (row_fill 4 (RGBA 0 122 255 25) (RGBA 128 0 255 25) 0)"
    by (intro create_gradient_background_pixel)
  then have p: "pixel_at (create_gradient_background 4 (RGBA 0 122 255 25) (RGBA 128 0 255 25))
      0 0 = Some (0, 122, 255, 255)"
    by (simp add: row_fill_def int_truediv_zero interp_zero)
  from s d p show ?thesis by simp
qed

section \<open>Properties of create_circle_with_checkmark\<close>

lemma color_init [simp]:
  "color init ''primary_blue'' = Inr (RGB 0 122 255)"
  "color init ''secondary_blue'' = Inr (RGB 0 89 204)"
  "color init ''background_white'' = Inr (RGB 255 255 255)"
  "color init ''shadow_gray'' = Inr (RGBA 0 0 0 25)"
  "color init ''highlight_white'' = Inr (RGBA 255 255 255 77)"
  by (simp_all add: color_def init_def)

lemma pow2_pos: "0 < pow2 k"
  by (simp add: pow2_def)

lemma fl_nonneg: "0 \<le> q \<Longrightarrow> 0 \<le> fl q"
proof (cases "q = 0")
  case True
  then show ?thesis by (simp add: fl_def)
next
  case False
  assume "0 \<le> q"
  with False have q: "0 < q" by simp
  have u: "0 < pow2 (ilog2 \<bar>q\<bar> - 52)" by (rule pow2_pos)
  from q u have t: "0 \<le> \<bar>q\<bar> / pow2 (ilog2 \<bar>q\<bar> - 52)" by simp
  then have m: "0 \<le> \<lfloor>\<bar>q\<bar> / pow2 (ilog2 \<bar>q\<bar> - 52)\<rfloor>" by simp
  show ?thesis
    unfolding fl_def Let_def using False q u m
    by (auto intro!: mult_nonneg_nonneg)
qed

lemma int_scaled_nonneg: "0 \<le> n \<Longrightarrow> 0 \<le> c \<Longrightarrow> 0 \<le> int_scaled n c"
proof -
  assume n: "0 \<le> n" and c: "0 \<le> c"
  from n have "(0::rat) \<le> of_int n" by simp
  then have a: "0 \<le> fl (of_int n)" by (rule fl_nonneg)
  have b: "0 \<le> fl c" using c by (rule fl_nonneg)
  from a b have "0 \<le> fl (of_int n) * fl c" by (rule mult_nonneg_nonneg)
  then have "0 \<le> fl (fl (of_int n) * fl c)" by (rule fl_nonneg)
  then show ?thesis
    by (simp add: int_scaled_def fmul_def float_of_int_def int_of_float_def)
qed

lemma Image_new_Inr:
  "0 \<le> w \<Longrightarrow> 0 \<le> h \<Longrightarrow> Image_new w h c = Inr \<lparr>width = w, height = h, pix = (\<lambda>x y. c)\<rparr>"
  by (simp add: Image_new_def)

lemma draw_shape_dims [simp]:
  "width (draw_shape img cov c) = width img" "height (draw_shape img cov c) = height img"
  by (simp_all add: draw_shape_def)

lemma draw_dims [simp]:
  "width (draw_ellipse R img box c) = width img"
  "height (draw_ellipse R img box c) = height img"
  "width (draw_rounded_rectangle R img box r c) = width img"
  "height (draw_rounded_rectangle R img box r c) = height img"
  "width (draw_polygon R img pts c) = width img"
  "height (draw_polygon R img pts c) = height img"
  by (simp_all add: draw_ellipse_def draw_rounded_rectangle_def draw_polygon_def)

lemma alpha_band_dims [simp]:
  "width (alpha_band img) = width img" "height (alpha_band img) = height img"
  by (simp_all add: alpha_band_def)

lemma filter_blur_dims [simp]:
  "width (filter_blur R r img) = width img" "height (filter_blur R r img) = height img"
  by (simp_all add: filter_blur_def)

lemma paste_pixels_dims [simp]:
  "width (paste_pixels R dest im origin msk) = width dest"
  "height (paste_pixels R dest im origin msk) = height dest"
  by (simp_all add: paste_pixels_def)

lemma composite_pixels_dims [simp]:
  "width (composite_pixels R im1 im2) = width im1"
  "height (composite_pixels R im1 im2) = height im1"
  by (simp_all add: composite_pixels_def)

lemma paste_Inr:
  "width msk = width im \<Longrightarrow> height msk = height im \<Longrightarrow>
   paste R dest im origin msk = Inr (paste_pixels R dest im origin msk)"
  by (simp add: paste_def)

lemma alpha_composite_Inr:
  "width im1 = width im2 \<Longrightarrow> height im1 = height im2 \<Longrightarrow>
   alpha_composite R im1 im2 = Inr (composite_pixels R im1 im2)"
  by (simp add: alpha_composite_def)

lemma highlight_ok:
  "0 \<le> sz \<Longrightarrow> \<exists>img. create_highlight_overlay R init sz = Inr img \<and> width img = sz \<and>
     height img = sz"
  by (simp add: create_highlight_overlay_def Image_new_Inr Let_def)

lemma shadow_ok:
  "0 \<le> sz \<Longrightarrow> \<exists>img. create_shadow R init sz = Inr img \<and>
     width img = int_scaled sz (11 / 10) \<and> height img = int_scaled sz (11 / 10)"
  by (simp add: create_shadow_def Image_new_Inr Let_def int_scaled_nonneg)

lemma icon_layers_ok:
  assumes "0 \<le> sz"
  shows "\<exists>img. icon_layers R init sz = Inr img \<and> width img = sz \<and> height img = sz"
proof -
  obtain hl where hl: "create_highlight_overlay R init sz = Inr hl" "width hl = sz" "height hl = sz"
    using highlight_ok [OF assms] by blast
  show ?thesis
    using assms
    by (simp add: icon_layers_def Let_def Image_new_Inr create_gradient_background_Inr
        int_scaled_nonneg paste_Inr alpha_composite_Inr hl)
qed

lemma compose_dims:
  assumes "0 \<le> sz"
  shows "dims (create_circle_with_checkmark R init sz) = Some (sz, sz)"
proof -
  obtain layers where l: "icon_layers R init sz = Inr layers" "width layers = sz"
      "height layers = sz"
    using icon_layers_ok [OF assms] by blast
  obtain shadow where s: "create_shadow R init sz = Inr shadow"
    using shadow_ok [OF assms] by blast
  show ?thesis
    using assms by (simp add: create_circle_with_checkmark_def l s Image_new_Inr paste_Inr dims_def)
qed

lemma shadow_dims:
  assumes "0 \<le> sz"
  shows "dims (create_shadow R init sz) = Some (int_scaled sz (11 / 10), int_scaled sz (11 / 10))"
  using shadow_ok [OF assms, of R] by (auto simp: dims_def)

lemma int_scaled_shadow:
  "int_scaled 10 (11 / 10) = 11 \<and> int_scaled 20 (11 / 10) = 22"
  by code_simp

text \<open>
  Claim C1, as stated, fails. The final canvas is allocated with the requested size; the
  shadow layer and then the composition are pasted on it at the origin, and a paste
  never resizes its destination. For size 10 the shadow layer is 11 by 11 and the
  returned image 10 by 10.
\<close>

theorem final_size_counterexample:
  "dims (create_circle_with_checkmark example_rasterizer init 10) = Some (10, 10) \<and>
   dims (create_shadow example_rasterizer init 10) = Some (11, 11) \<and>
   dims (create_circle_with_checkmark example_rasterizer init 10) \<noteq>
     dims (create_shadow example_rasterizer init 10)"
proof -
  have "dims (create_circle_with_checkmark example_rasterizer init 10) = Some (10, 10)"
    by (rule compose_dims) simp
  moreover have "dims (create_shadow example_rasterizer init 10) =
      Some (int_scaled 10 (11 / 10), int_scaled 10 (11 / 10))"
    by (rule shadow_dims) simp
  ultimately show ?thesis by (simp add: int_scaled_shadow)
qed

text \<open>
  Claim C1, amended. For every size above 0 the function returns an image of exactly
  size by size pixels: the shadow layer, of side \<open>int(size * 1.1)\<close>, is pasted through its
  own alpha at the origin of a new transparent size by size canvas, which clips it, and
  the composition is pasted over it, through its own alpha, at the origin.
\<close>

theorem final_image_size:
  "0 < sz \<longrightarrow>
     dims (create_circle_with_checkmark R init sz) = Some (sz, sz) \<and>
     dims (create_shadow R init sz) = Some (int_scaled sz (11 / 10), int_scaled sz (11 / 10)) \<and>
     (\<exists>layers shadow.
        icon_layers R init sz = Inr layers \<and> create_shadow R init sz = Inr shadow \<and>
        create_circle_with_checkmark R init sz =
          Inr (paste_pixels R
                (paste_pixels R \<lparr>width = sz, height = sz, pix = (\<lambda>x y. (0, 0, 0, 0))\<rparr>
                   shadow (0, 0) (alpha_band shadow))
                layers (0, 0) (alpha_band layers)))"
proof
  assume "0 < sz"
  then have sz: "0 \<le> sz" by simp
  obtain layers where l: "icon_layers R init sz = Inr layers" "width layers = sz"
      "height layers = sz"
    using icon_layers_ok [OF sz] by blast
  obtain shadow where s: "create_shadow R init sz = Inr shadow"
      "width shadow = int_scaled sz (11 / 10)" "height shadow = int_scaled sz (11 / 10)"
    using shadow_ok [OF sz] by blast
  have c: "create_circle_with_checkmark R init sz =
          Inr (paste_pixels R
                (paste_pixels R \<lparr>width = sz, height = sz, pix = (\<lambda>x y. (0, 0, 0, 0))\<rparr>
                   shadow (0, 0) (alpha_band shadow))
                layers (0, 0) (alpha_band layers))"
    using sz by (simp add: create_circle_with_checkmark_def l s Image_new_Inr paste_Inr)
  show "dims (create_circle_with_checkmark R init sz) = Some (sz, sz) \<and>
     dims (create_shadow R init sz) = Some (int_scaled sz (11 / 10), int_scaled sz (11 / 10)) \<and>
     (\<exists>layers shadow.
        icon_layers R init sz = Inr layers \<and> create_shadow R init sz = Inr shadow \<and>
        create_circle_with_checkmark R init sz =
          Inr (paste_pixels R
                (paste_pixels R \<lparr>width = sz, height = sz, pix = (\<lambda>x y. (0, 0, 0, 0))\<rparr>
                   shadow (0, 0) (alpha_band shadow))
                layers (0, 0) (alpha_band layers)))"
    using l s c by (simp add: dims_def)
qed

theorem final_image_size_witness:
  "(0::int) < 20 \<and>
   dims (create_circle_with_checkmark example_rasterizer init 20) = Some (20, 20) \<and>
   dims (create_shadow example_rasterizer init 20) = Some (22, 22)"
  using final_image_size [of 20 example_rasterizer]
  by (simp add: int_scaled_shadow)

text \<open>
  Claim C5, as stated, fails at size 0: the program has no check of its own, the canvas
  allocation accepts a zero size, the loop over the rows runs no step, and
  \<open>create_gradient_background\<close> returns an empty image.
\<close>

theorem zero_size_counterexample:
  "dims (create_gradient_background 0 (RGB 0 122 255) (RGB 0 89 204)) = Some (0, 0)"
  by (rule create_gradient_background_dims) simp

text \<open>
  Claim C5, amended. For every size below 0, \<open>create_gradient_background\<close> and
  \<open>create_circle_with_checkmark\<close> end with the ValueError of the canvas allocation and
  return no image; size 0 is not rejected by \<open>create_gradient_background\<close>, which returns
  an empty 0 by 0 image.
\<close>

theorem negative_size_rejected:
  "(sz < 0 \<longrightarrow>
      create_gradient_background sz A B = Inl (ValueError ''Width and height must be >= 0'') \<and>
      create_circle_with_checkmark R g sz =
        Inl (ValueError ''Width and height must be >= 0'')) \<and>
   dims (create_gradient_background 0 A B) = Some (0, 0)"
  by (simp add: create_gradient_background_def create_circle_with_checkmark_def
      icon_layers_def Image_new_def dims_def)

theorem negative_size_rejected_witness:
  "(- 1::int) < 0 \<and>
   create_gradient_background (- 1) (RGB 0 122 255) (RGB 0 89 204) =
     Inl (ValueError ''Width and height must be >= 0'') \<and>
   create_circle_with_checkmark example_rasterizer init (- 1) =
     Inl (ValueError ''Width and height must be >= 0'')"
  using negative_size_rejected [of "- 1" "RGB 0 122 255" "RGB 0 89 204" example_rasterizer init]
  by simp

end
